theory Spec2Isabelle
  imports Main
begin

section \<open>The accordion panel of \<^verbatim>\<open>core/src/components/accordion/accordion.tsx\<close>\<close>

text \<open>
  The component is a class with mutable fields, whose methods schedule callbacks on
  animation frames and await a transition-end promise. The embedding passes the whole
  state explicitly: the fields of the instance, the parts of the platform the methods read
  or write (the style and the measured height of the content elements, the pending
  animation-frame callbacks, the pending transition-end promises, the clock), and a log of
  the toggle requests sent to the group. The anonymous callbacks of the source become
  constructors of a datatype that carry the variables their closure captures.

  Left out are the methods that touch none of these fields:
  \<^verbatim>\<open>setItemDefaults\<close>, \<^verbatim>\<open>getSlottedHeaderIonItem\<close>, \<^verbatim>\<open>setAria\<close> and
  \<^verbatim>\<open>slotToggleIcon\<close>, which set up the slotted item, its icon and its
  \<^verbatim>\<open>aria-expanded\<close> attribute, and the markup that \<^verbatim>\<open>render\<close> returns. Of
  \<^verbatim>\<open>componentDidLoad\<close>, which calls them, the scheduling of its frame is kept.
\<close>

subsection \<open>Data\<close>

text \<open>\<^verbatim>\<open>const enum AccordionState\<close>, lines 9-14.\<close>

datatype AccordionState = Collapsed | Collapsing | Expanded | Expanding

text \<open>
  The \<^verbatim>\<open>value\<close> property of the group element: a string, an array of strings, or
  \<^verbatim>\<open>null\<close>/\<^verbatim>\<open>undefined\<close>.
\<close>

datatype group_value = NoValue | Single string | Multiple "string list"

text \<open>The two properties of the group element that the accordion reads.\<close>

record accordion_group =
  gvalue :: group_value
  animated :: bool

text \<open>
  An element next to the host element: its tag name and its \<^verbatim>\<open>value\<close> property
  (\<^verbatim>\<open>undefined\<close> on an element that has none).
\<close>

record sibling =
  tagName :: string
  sib_value :: "string option"

text \<open>The host element \<^verbatim>\<open>this.el\<close>, as far as the accordion reads it.\<close>

record host =
  closest_group :: "accordion_group option"
  nextElementSibling :: "sibling option"
  previousElementSibling :: "sibling option"

text \<open>
  The callbacks given to \<^verbatim>\<open>raf\<close>, named after the line where each starts. Elements
  are addresses (natural numbers); a callback carries the \<^verbatim>\<open>contentEl\<close> and
  \<^verbatim>\<open>contentElWrapper\<close> that its closure captured when the command was issued.
\<close>

datatype callback =
    Load_113
  | Expand_232 nat nat
  | Expand_235 nat nat
  | Collapse_267 nat
  | Collapse_271 nat

text \<open>The code after \<^verbatim>\<open>await waitForTransition\<close> (lines 242-243 and 278-279).\<close>

datatype continuation = Expand_242 nat | Collapse_278 nat

record sys =
  accordionGroupEl :: "accordion_group option"
  contentEl :: "nat option"
  contentElWrapper :: "nat option"
  currentRaf :: "nat option"
  el :: "host option"
  state :: AccordionState
  isNext :: bool
  isPrevious :: bool
  value_prop :: string
  disabled :: bool
  readonly :: bool
  has_window :: bool
  prefers_reduced_motion :: bool
  config_animated :: "bool option"
  offsetHeight :: "nat \<Rightarrow> int"
  max_height :: "nat \<Rightarrow> int option"
  frames :: "(nat \<times> callback) list"
  next_handle :: nat
  waiters :: "(nat \<times> nat \<times> continuation) list"
  now :: nat
  listening :: bool
  toggle_requests :: "(string \<times> bool) list"

text \<open>
  The first eleven fields are the fields of the class (\<open>value_prop\<close> is its
  \<^verbatim>\<open>value\<close>; \<open>accordionGroupEl\<close> holds the current properties of the group element
  the instance refers to, which the group changes from outside). The others are the
  platform: whether \<^verbatim>\<open>window\<close> exists, the reduced-motion media query, the
  \<^verbatim>\<open>animated\<close> entry of the global configuration (\<open>None\<close> when it is not set), the
  \<^verbatim>\<open>offsetHeight\<close> and the \<^verbatim>\<open>max-height\<close> style of each element (\<open>None\<close> when the
  style has no such property), the scheduled animation-frame callbacks with their handles,
  the next handle, the transition-end promises not yet resolved (element, deadline,
  awaiting code), the clock, whether \<^verbatim>\<open>updateListener\<close> is registered for
  \<^verbatim>\<open>ionValueChange\<close>, and the calls of \<^verbatim>\<open>requestAccordionToggle\<close> received by the group.
\<close>

subsection \<open>The platform and the helpers that are not part of the file\<close>

text \<open>
  Modelled from the spec: \<^verbatim>\<open>raf\<close> of \<^verbatim>\<open>@utils/helpers\<close> is not among the sources.
  The spec has it schedule the callback on the next paint frame; its result is the handle
  of the scheduled frame.
\<close>

definition raf :: "callback \<Rightarrow> sys \<Rightarrow> nat \<times> sys" where
  "raf cb s =
     (next_handle s,
      s\<lparr>frames := frames s @ [(next_handle s, cb)], next_handle := Suc (next_handle s)\<rparr>)"

text \<open>
  The platform's \<^verbatim>\<open>cancelAnimationFrame\<close>: a scheduled callback that has not run is
  removed; any other handle is ignored.
\<close>

definition cancelAnimationFrame :: "nat \<Rightarrow> sys \<Rightarrow> sys" where
  "cancelAnimationFrame h s = s\<lparr>frames := filter (\<lambda>p. fst p \<noteq> h) (frames s)\<rparr>"

text \<open>
  Modelled from the spec: \<^verbatim>\<open>transitionEndAsync\<close> of \<^verbatim>\<open>@utils/helpers\<close> is not among
  the sources. The spec has it listen for the transition-end signal of the element,
  bounded by a timeout of the given number of time units: the promise resolves at the
  signal or at the timeout, whichever comes first. The third argument is the code that
  awaits the promise.
\<close>

definition transitionEndAsync :: "nat \<Rightarrow> nat \<Rightarrow> continuation \<Rightarrow> sys \<Rightarrow> sys" where
  "transitionEndAsync e expectedDuration k s =
     s\<lparr>waiters := waiters s @ [(e, now s + expectedDuration, k)]\<rparr>"

text \<open>
  Modelled from the spec: \<^verbatim>\<open>config.get\<close> of \<^verbatim>\<open>global/config\<close> is not among the
  sources. It returns the configured entry, or the fallback when the entry is not set.
\<close>

definition config_get :: "bool option \<Rightarrow> bool \<Rightarrow> bool" where
  "config_get entry fallback = (case entry of None \<Rightarrow> fallback | Some b \<Rightarrow> b)"

subsection \<open>The methods\<close>

text \<open>\<^verbatim>\<open>shouldAnimate\<close>, lines 294-314.\<close>

definition shouldAnimate :: "sys \<Rightarrow> bool" where
  "shouldAnimate s =
     (if \<not> has_window s then False
      else if prefers_reduced_motion s then False
      else if \<not> config_get (config_animated s) True then False
      else (case accordionGroupEl s of
              Some g \<Rightarrow> if \<not> animated g then False else True
            | None \<Rightarrow> True))"

text \<open>
  \<^verbatim>\<open>expandAccordion\<close>, lines 216-249. The callback of line 232 is only scheduled: the
  handle that \<^verbatim>\<open>raf\<close> returns for it is dropped.
\<close>

definition expandAccordion :: "bool \<Rightarrow> sys \<Rightarrow> sys" where
  "expandAccordion initialUpdate s =
     (if initialUpdate \<or> contentEl s = None \<or> contentElWrapper s = None
      then s\<lparr>state := Expanded\<rparr>
      else if state s = Expanded then s
      else
        let s1 = (case currentRaf s of Some h \<Rightarrow> cancelAnimationFrame h s | None \<Rightarrow> s)
        in if shouldAnimate s1
           then snd (raf (Expand_232 (the (contentEl s)) (the (contentElWrapper s))) s1)
           else s1\<lparr>state := Expanded\<rparr>)"

text \<open>\<^verbatim>\<open>collapseAccordion\<close>, lines 251-285.\<close>

definition collapseAccordion :: "bool \<Rightarrow> sys \<Rightarrow> sys" where
  "collapseAccordion initialUpdate s =
     (if initialUpdate \<or> contentEl s = None
      then s\<lparr>state := Collapsed\<rparr>
      else if state s = Collapsed then s
      else
        let s1 = (case currentRaf s of Some h \<Rightarrow> cancelAnimationFrame h s | None \<Rightarrow> s)
        in if shouldAnimate s1
           then (let (h, s2) = raf (Collapse_267 (the (contentEl s))) s1
                 in s2\<lparr>currentRaf := Some h\<rparr>)
           else s1\<lparr>state := Collapsed\<rparr>)"

text \<open>
  The bodies of the scheduled callbacks, each up to its \<^verbatim>\<open>await\<close>. The string
  \<^verbatim>\<open>`${contentHeight}px`\<close> is kept as the number. The callback of line 113 reads the
  state and calls \<^verbatim>\<open>setAria\<close>, which writes the \<^verbatim>\<open>aria-expanded\<close> attribute of the
  slotted item's button and none of the fields kept here.
\<close>

fun run_callback :: "callback \<Rightarrow> sys \<Rightarrow> sys" where
  "run_callback Load_113 s = s"
| "run_callback (Expand_232 c w) s =
     (let s1 = s\<lparr>state := Expanding\<rparr>;
          (h, s2) = raf (Expand_235 c w) s1
      in s2\<lparr>currentRaf := Some h\<rparr>)"
| "run_callback (Expand_235 c w) s =
     (let contentHeight = offsetHeight s w;
          s1 = transitionEndAsync c 2000 (Expand_242 c) s
      in s1\<lparr>max_height := (max_height s1)(c := Some contentHeight)\<rparr>)"
| "run_callback (Collapse_267 c) s =
     (let contentHeight = offsetHeight s c;
          s1 = s\<lparr>max_height := (max_height s)(c := Some contentHeight)\<rparr>
      in snd (raf (Collapse_271 c) s1))"
| "run_callback (Collapse_271 c) s =
     (let s1 = transitionEndAsync c 2000 (Collapse_278 c) s
      in s1\<lparr>state := Collapsing\<rparr>)"

text \<open>The code that runs when the awaited promise resolves.\<close>

fun resume :: "continuation \<Rightarrow> sys \<Rightarrow> sys" where
  "resume (Expand_242 c) s =
     (let s1 = s\<lparr>state := Expanded\<rparr> in s1\<lparr>max_height := (max_height s1)(c := None)\<rparr>)"
| "resume (Collapse_278 c) s =
     (let s1 = s\<lparr>state := Collapsed\<rparr> in s1\<lparr>max_height := (max_height s1)(c := None)\<rparr>)"

text \<open>
  The expression \<^verbatim>\<open>Array.isArray(value) ? value.includes(x) : value === x\<close> of lines
  326, 345 and 352, where \<open>x\<close> is a string.
\<close>

fun value_includes :: "group_value \<Rightarrow> string \<Rightarrow> bool" where
  "value_includes (Multiple vs) x = (x \<in> set vs)"
| "value_includes (Single v) x = (v = x)"
| "value_includes NoValue x = False"

text \<open>\<^verbatim>\<open>getNextSibling\<close> and \<^verbatim>\<open>getPreviousSibling\<close>, lines 357-383.\<close>

definition getNextSibling :: "sys \<Rightarrow> sibling option" where
  "getNextSibling s =
     (case el s of
        None \<Rightarrow> None
      | Some e \<Rightarrow>
          (case nextElementSibling e of
             None \<Rightarrow> None
           | Some nextSibling \<Rightarrow>
               if tagName nextSibling \<noteq> ''ION-ACCORDION'' then None else Some nextSibling))"

definition getPreviousSibling :: "sys \<Rightarrow> sibling option" where
  "getPreviousSibling s =
     (case el s of
        None \<Rightarrow> None
      | Some e \<Rightarrow>
          (case previousElementSibling e of
             None \<Rightarrow> None
           | Some previousSibling \<Rightarrow>
               if tagName previousSibling \<noteq> ''ION-ACCORDION'' then None
               else Some previousSibling))"

text \<open>\<^verbatim>\<open>updateState\<close>, lines 316-355. It is declared async but awaits nothing.\<close>

definition updateState :: "bool \<Rightarrow> sys \<Rightarrow> sys" where
  "updateState initialUpdate s =
     (case accordionGroupEl s of
        None \<Rightarrow> s
      | Some accordionGroup \<Rightarrow>
          let accordionValue = value_prop s;
              v = gvalue accordionGroup;
              shouldExpand = value_includes v accordionValue
          in if shouldExpand
             then (expandAccordion initialUpdate s)\<lparr>isNext := False, isPrevious := False\<rparr>
             else
               let s1 = collapseAccordion initialUpdate s;
                   nextAccordionValue = Option.bind (getNextSibling s1) sib_value;
                   s2 = (case nextAccordionValue of
                           Some nv \<Rightarrow> s1\<lparr>isPrevious := value_includes v nv\<rparr>
                         | None \<Rightarrow> s1);
                   previousAccordionValue = Option.bind (getPreviousSibling s2) sib_value
               in (case previousAccordionValue of
                     Some pv \<Rightarrow> s2\<lparr>isNext := value_includes v pv\<rparr>
                   | None \<Rightarrow> s2))"

text \<open>
  \<^verbatim>\<open>toggleExpanded\<close>, lines 385-402. The call of \<^verbatim>\<open>requestAccordionToggle\<close> is
  recorded; what the group does with it is the group's.
\<close>

definition toggleExpanded :: "sys \<Rightarrow> sys" where
  "toggleExpanded s =
     (if disabled s \<or> readonly s then s
      else (case accordionGroupEl s of
              None \<Rightarrow> s
            | Some g \<Rightarrow>
                let expand = (state s = Collapsed \<or> state s = Collapsing)
                in s\<lparr>toggle_requests := toggle_requests s @ [(value_prop s, expand)]\<rparr>))"

text \<open>\<^verbatim>\<open>connectedCallback\<close> and \<^verbatim>\<open>disconnectedCallback\<close>, lines 89-102.\<close>

definition connectedCallback :: "sys \<Rightarrow> sys" where
  "connectedCallback s =
     (let s1 = s\<lparr>accordionGroupEl := Option.bind (el s) closest_group\<rparr>
      in (case accordionGroupEl s1 of
            Some g \<Rightarrow> (updateState True s1)\<lparr>listening := True\<rparr>
          | None \<Rightarrow> s1))"

definition disconnectedCallback :: "sys \<Rightarrow> sys" where
  "disconnectedCallback s =
     (case accordionGroupEl s of Some g \<Rightarrow> s\<lparr>listening := False\<rparr> | None \<Rightarrow> s)"

text \<open>\<^verbatim>\<open>valueChanged\<close>, lines 60-63: the watcher of the \<^verbatim>\<open>value\<close> property.\<close>

definition valueChanged :: "sys \<Rightarrow> sys" where
  "valueChanged s = updateState False s"

text \<open>\<^verbatim>\<open>updateListener\<close>, line 42.\<close>

definition updateListener :: "sys \<Rightarrow> sys" where
  "updateListener s = updateState False s"

text \<open>
  \<^verbatim>\<open>componentDidLoad\<close>, lines 104-121: after \<^verbatim>\<open>setItemDefaults\<close> and
  \<^verbatim>\<open>slotToggleIcon\<close> it schedules the callback of line 113 and drops the handle.
\<close>

definition componentDidLoad :: "sys \<Rightarrow> sys" where
  "componentDidLoad s = snd (raf Load_113 s)"

text \<open>
  \<^verbatim>\<open>render\<close>, lines 404-454, as far as it writes fields: the \<^verbatim>\<open>ref\<close> callbacks store
  the content element and its wrapper.
\<close>

definition render :: "nat \<Rightarrow> nat \<Rightarrow> sys \<Rightarrow> sys" where
  "render c w s = s\<lparr>contentEl := Some c, contentElWrapper := Some w\<rparr>"

subsection \<open>What the platform does between the calls\<close>

text \<open>
  A paint frame runs the callbacks that were scheduled when the frame began, in the order
  of their scheduling, each only if it has not been cancelled meanwhile; a callback
  scheduled during the frame waits for the next one.
\<close>

fun run_callbacks :: "(nat \<times> callback) list \<Rightarrow> sys \<Rightarrow> sys" where
  "run_callbacks [] s = s"
| "run_callbacks (p # rest) s =
     run_callbacks rest
       (if fst p \<in> set (map fst (frames s))
        then run_callback (snd p) (s\<lparr>frames := filter (\<lambda>q. fst q \<noteq> fst p) (frames s)\<rparr>)
        else s)"

definition animation_frame :: "sys \<Rightarrow> sys" where
  "animation_frame s = run_callbacks (frames s) s"

text \<open>
  The promises selected by \<open>P\<close> resolve, oldest first, and the code awaiting each one
  runs.
\<close>

definition resolve :: "(nat \<times> nat \<times> continuation \<Rightarrow> bool) \<Rightarrow> sys \<Rightarrow> sys" where
  "resolve P s =
     fold (\<lambda>w. resume (snd (snd w))) (filter P (waiters s))
       (s\<lparr>waiters := filter (\<lambda>w. \<not> P w) (waiters s)\<rparr>)"

text \<open>The transition-end signal of element \<open>e\<close>.\<close>

definition transition_end :: "nat \<Rightarrow> sys \<Rightarrow> sys" where
  "transition_end e s = resolve (\<lambda>w. fst w = e) s"

text \<open>Time passes: \<open>d\<close> time units later, the promises whose timeout has come resolve.\<close>

definition advance :: "nat \<Rightarrow> sys \<Rightarrow> sys" where
  "advance d s = (let s1 = s\<lparr>now := now s + d\<rparr> in resolve (\<lambda>w. fst (snd w) \<le> now s1) s1)"

text \<open>
  There is one group element: the instance's reference \<^verbatim>\<open>accordionGroupEl\<close> and the
  ancestor lookup of the host element both lead to it, so a change of one of its
  properties shows in both places.
\<close>

definition change_group :: "(accordion_group \<Rightarrow> accordion_group) \<Rightarrow> sys \<Rightarrow> sys" where
  "change_group f s =
     s\<lparr>accordionGroupEl := map_option f (accordionGroupEl s),
       el := map_option (\<lambda>e. e\<lparr>closest_group := map_option f (closest_group e)\<rparr>) (el s)\<rparr>"

text \<open>
  The events of an attached instance: the group changes its value and emits
  \<^verbatim>\<open>ionValueChange\<close>; the group's \<^verbatim>\<open>animated\<close> property is set; the instance's
  \<^verbatim>\<open>value\<close> property is set (the watcher runs when the value differs); the header is
  clicked; the component renders; the component has loaded; a paint frame; a
  transition-end signal; time passing.
\<close>

datatype event =
    IonValueChange group_value
  | GroupAnimated bool
  | SetValue string
  | Click
  | Render nat nat
  | ComponentDidLoad
  | AnimationFrame
  | TransitionEnd nat
  | Advance nat

fun step :: "event \<Rightarrow> sys \<Rightarrow> sys" where
  "step (IonValueChange v) s =
     (let s1 = change_group (\<lambda>g. g\<lparr>gvalue := v\<rparr>) s
      in if listening s1 then updateListener s1 else s1)"
| "step (GroupAnimated b) s = change_group (\<lambda>g. g\<lparr>animated := b\<rparr>) s"
| "step (SetValue v) s =
     (if v = value_prop s then s else valueChanged (s\<lparr>value_prop := v\<rparr>))"
| "step Click s = toggleExpanded s"
| "step (Render c w) s = render c w s"
| "step ComponentDidLoad s = componentDidLoad s"
| "step AnimationFrame s = animation_frame s"
| "step (TransitionEnd e) s = transition_end e s"
| "step (Advance d) s = advance d s"

definition run :: "event list \<Rightarrow> sys \<Rightarrow> sys" where
  "run es s = fold step es s"

text \<open>
  An instance as the class creates it (the field initialisers of lines 41-59), with
  nothing scheduled.
\<close>

definition created :: "sys \<Rightarrow> bool" where
  "created s \<longleftrightarrow>
     accordionGroupEl s = None \<and> contentEl s = None \<and> contentElWrapper s = None \<and>
     currentRaf s = None \<and> state s = Collapsed \<and> \<not> isNext s \<and> \<not> isPrevious s \<and>
     frames s = [] \<and> waiters s = [] \<and> \<not> listening s \<and> toggle_requests s = []"

text \<open>
  A concrete instance for the examples: the panel with value \<open>''b''\<close>, created inside a
  group whose open value is \<open>g\<close>, after an accordion \<open>''a''\<close>, on a platform that animates.
\<close>

definition panel_b :: "accordion_group option \<Rightarrow> sys" where
  "panel_b g =
     \<lparr>accordionGroupEl = None, contentEl = None, contentElWrapper = None, currentRaf = None,
      el = Some \<lparr>closest_group = g, nextElementSibling = None,
                 previousElementSibling = Some \<lparr>tagName = ''ION-ACCORDION'', sib_value = Some ''a''\<rparr>\<rparr>,
      state = Collapsed, isNext = False, isPrevious = False, value_prop = ''b'',
      disabled = False, readonly = False,
      has_window = True, prefers_reduced_motion = False, config_animated = None,
      offsetHeight = (\<lambda>e. 120), max_height = (\<lambda>e. None),
      frames = [], next_handle = 1, waiters = [], now = 0, listening = False,
      toggle_requests = []\<rparr>"

text \<open>
  The same panel once attached and rendered: the group's open value is \<open>''a''\<close>, the
  group animates, the content element is element 0 and its wrapper is element 1.
\<close>

definition attached_b :: sys where
  "attached_b =
     render 0 1 (connectedCallback (panel_b (Some \<lparr>gvalue = Single ''a'', animated = True\<rparr>)))"

text \<open>
  The panel attached and rendered in a group whose open value is \<open>''b''\<close>: the attach
  callback finds it in the open set.
\<close>

definition attached_open_b :: sys where
  "attached_open_b =
     render 0 1 (connectedCallback (panel_b (Some \<lparr>gvalue = Single ''b'', animated = True\<rparr>)))"


text \<open>
  The attached panel with other neighbours: the element before it is no accordion and
  the accordion \<open>''c''\<close> follows it; the group's open values are \<open>''a''\<close> and \<open>''c''\<close>.
\<close>

definition before_c :: sys where
  "before_c =
     attached_b
       \<lparr>accordionGroupEl := Some \<lparr>gvalue = Multiple [''a'', ''c''], animated = True\<rparr>,
        el := Some \<lparr>closest_group = Some \<lparr>gvalue = Multiple [''a'', ''c''], animated = True\<rparr>,
                   nextElementSibling = Some \<lparr>tagName = ''ION-ACCORDION'', sib_value = Some ''c''\<rparr>,
                   previousElementSibling = Some \<lparr>tagName = ''DIV'', sib_value = Some ''a''\<rparr>\<rparr>,
        isNext := False\<rparr>"

text \<open>
  The attached panel after the accordion before it has left the document: its
  \<^verbatim>\<open>isNext\<close> is still the one computed at attach.
\<close>

definition alone_b :: sys where
  "alone_b =
     attached_b
       \<lparr>el := Some \<lparr>closest_group = Some \<lparr>gvalue = Single ''a'', animated = True\<rparr>,
                   nextElementSibling = None, previousElementSibling = None\<rparr>\<rparr>"

text \<open>
  What holds of an instance that found no group: it refers to none, it listens to none,
  it is Collapsed, the only callbacks scheduled are those of \<^verbatim>\<open>componentDidLoad\<close>, and
  nothing is awaited or requested.
\<close>

definition groupless :: "sys \<Rightarrow> bool" where
  "groupless s \<longleftrightarrow>
     accordionGroupEl s = None \<and> \<not> listening s \<and> state s = Collapsed \<and>
     list_all (\<lambda>p. snd p = Load_113) (frames s) \<and> waiters s = [] \<and>
     toggle_requests s = []"

section \<open>Properties\<close>

text \<open>The attached panel, computed: the attach callback found it not in the open set.\<close>

lemma attached_b_eq:
  "attached_b =
     \<lparr>accordionGroupEl = Some \<lparr>gvalue = Single ''a'', animated = True\<rparr>,
      contentEl = Some 0, contentElWrapper = Some 1, currentRaf = None,
      el = Some \<lparr>closest_group = Some \<lparr>gvalue = Single ''a'', animated = True\<rparr>,
                 nextElementSibling = None,
                 previousElementSibling = Some \<lparr>tagName = ''ION-ACCORDION'', sib_value = Some ''a''\<rparr>\<rparr>,
      state = Collapsed, isNext = True, isPrevious = False, value_prop = ''b'',
      disabled = False, readonly = False,
      has_window = True, prefers_reduced_motion = False, config_animated = None,
      offsetHeight = (\<lambda>e. 120), max_height = (\<lambda>e. None),
      frames = [], next_handle = 1, waiters = [], now = 0, listening = True,
      toggle_requests = []\<rparr>"
  by (simp add: attached_b_def render_def connectedCallback_def panel_b_def Let_def
      updateState_def collapseAccordion_def getNextSibling_def getPreviousSibling_def)

text \<open>Facts about the platform used below.\<close>

lemma shouldAnimate_frames [simp]: "shouldAnimate (s\<lparr>frames := fs\<rparr>) = shouldAnimate s"
  by (simp add: shouldAnimate_def)

lemma shouldAnimate_iff:
  "shouldAnimate s \<longleftrightarrow>
     has_window s \<and> \<not> prefers_reduced_motion s \<and> config_animated s \<noteq> Some False \<and>
     (case accordionGroupEl s of None \<Rightarrow> True | Some g \<Rightarrow> animated g)"
  by (auto simp: shouldAnimate_def config_get_def split: option.splits)




lemma expand_direct:
  "\<not> shouldAnimate s \<Longrightarrow>
     state (expandAccordion initialUpdate s) = Expanded \<and>
     next_handle (expandAccordion initialUpdate s) = next_handle s \<and>
     set (frames (expandAccordion initialUpdate s)) \<subseteq> set (frames s) \<and>
     waiters (expandAccordion initialUpdate s) = waiters s"
  by (auto simp: expandAccordion_def Let_def cancelAnimationFrame_def split: option.splits)

lemma collapse_direct:
  "\<not> shouldAnimate s \<Longrightarrow>
     state (collapseAccordion initialUpdate s) = Collapsed \<and>
     next_handle (collapseAccordion initialUpdate s) = next_handle s \<and>
     set (frames (collapseAccordion initialUpdate s)) \<subseteq> set (frames s) \<and>
     waiters (collapseAccordion initialUpdate s) = waiters s"
  by (auto simp: collapseAccordion_def Let_def cancelAnimationFrame_def split: option.splits)

lemma expand_animated:
  "shouldAnimate s \<Longrightarrow> contentEl s = Some c \<Longrightarrow> contentElWrapper s = Some w \<Longrightarrow>
   state s \<noteq> Expanded \<Longrightarrow>
     state (expandAccordion False s) = state s \<and>
     (next_handle s, Expand_232 c w) \<in> set (frames (expandAccordion False s))"
  by (auto simp: expandAccordion_def Let_def cancelAnimationFrame_def raf_def
      split: option.splits)

lemma collapse_animated:
  "shouldAnimate s \<Longrightarrow> contentEl s = Some c \<Longrightarrow> state s \<noteq> Collapsed \<Longrightarrow>
     state (collapseAccordion False s) = state s \<and>
     (next_handle s, Collapse_267 c) \<in> set (frames (collapseAccordion False s))"
  by (auto simp: collapseAccordion_def Let_def cancelAnimationFrame_def raf_def
      split: option.splits)


lemma updateState_no_group: "accordionGroupEl s = None \<Longrightarrow> updateState initialUpdate s = s"
  by (simp add: updateState_def)

lemma run_callbacks_load:
  "list_all (\<lambda>p. snd p = Load_113) ps \<Longrightarrow> groupless s \<Longrightarrow> groupless (run_callbacks ps s)"
proof (induction ps arbitrary: s)
  case Nil
  then show ?case by simp
next
  case (Cons p ps)
  from Cons.prems have "groupless (s\<lparr>frames := filter (\<lambda>q. fst q \<noteq> fst p) (frames s)\<rparr>)"
    by (simp add: groupless_def list_all_iff)
  with Cons show ?case by simp
qed

lemma step_groupless: "groupless s \<Longrightarrow> groupless (step e s)"
proof (cases e)
  case AnimationFrame
  assume "groupless s"
  then show ?thesis
    using AnimationFrame run_callbacks_load [of "frames s" s]
    by (simp add: animation_frame_def groupless_def)
qed (auto simp: groupless_def updateListener_def valueChanged_def updateState_def
        toggleExpanded_def render_def transition_end_def advance_def change_group_def
        componentDidLoad_def raf_def resolve_def Let_def)

lemma run_groupless: "groupless s \<Longrightarrow> groupless (run es s)"
  unfolding run_def by (induction es arbitrary: s) (simp_all add: step_groupless)

lemma step_no_load:
  "groupless s \<Longrightarrow> frames s = [] \<Longrightarrow> e \<noteq> ComponentDidLoad \<Longrightarrow> frames (step e s) = []"
  by (cases e)
     (auto simp: groupless_def updateListener_def valueChanged_def updateState_def
        toggleExpanded_def render_def transition_end_def advance_def change_group_def
        animation_frame_def resolve_def Let_def)

lemma run_no_load:
  "groupless s \<Longrightarrow> frames s = [] \<Longrightarrow> ComponentDidLoad \<notin> set es \<Longrightarrow> frames (run es s) = []"
proof (induction es arbitrary: s)
  case Nil
  then show ?case by (simp add: run_def)
next
  case (Cons e es)
  have "groupless (step e s)" using Cons.prems(1) by (rule step_groupless)
  moreover from Cons.prems have "e \<noteq> ComponentDidLoad" by auto
  with Cons.prems have "frames (step e s) = []" by (simp add: step_no_load)
  moreover have "ComponentDidLoad \<notin> set es" using Cons.prems by simp
  ultimately have "frames (run es (step e s)) = []" by (rule Cons.IH)
  then show ?case by (simp add: run_def)
qed

text \<open>
  The attached panel after the group's open value became \<open>''b''\<close> and two frames have
  passed: it is in the middle of its expansion.
\<close>

lemma mid_expansion_eq:
  "run [IonValueChange (Single ''b''), AnimationFrame, AnimationFrame] attached_b =
     attached_b\<lparr>accordionGroupEl := Some \<lparr>gvalue = Single ''b'', animated = True\<rparr>,
        el := Some \<lparr>closest_group = Some \<lparr>gvalue = Single ''b'', animated = True\<rparr>,
                 nextElementSibling = None,
                 previousElementSibling = Some \<lparr>tagName = ''ION-ACCORDION'', sib_value = Some ''a''\<rparr>\<rparr>,
        frames := [], next_handle := 3, isNext := False, isPrevious := False,
        state := Expanding, currentRaf := Some 2, waiters := [(0, 2000, Expand_242 0)],
        max_height := (\<lambda>e. None)(0 := Some 120)\<rparr>"
  by (simp add: run_def attached_b_eq change_group_def updateListener_def updateState_def
      expandAccordion_def shouldAnimate_def config_get_def raf_def animation_frame_def
      transitionEndAsync_def Let_def)

text \<open>
  The attached panel after two notifications within one frame: the open value became
  \<open>''b''\<close> and then \<open>''a''\<close> again.
\<close>

lemma two_notifications_eq:
  "run [IonValueChange (Single ''b''), IonValueChange (Single ''a'')] attached_b =
     attached_b\<lparr>accordionGroupEl := Some \<lparr>gvalue = Single ''a'', animated = True\<rparr>,
        frames := [(1, Expand_232 0 1)], next_handle := 2, isNext := True,
        isPrevious := False\<rparr>"
proof -
  have first: "step (IonValueChange (Single ''b'')) attached_b =
     attached_b\<lparr>accordionGroupEl := Some \<lparr>gvalue = Single ''b'', animated = True\<rparr>,
        el := Some \<lparr>closest_group = Some \<lparr>gvalue = Single ''b'', animated = True\<rparr>,
                 nextElementSibling = None,
                 previousElementSibling = Some \<lparr>tagName = ''ION-ACCORDION'', sib_value = Some ''a''\<rparr>\<rparr>,
        frames := [(1, Expand_232 0 1)], next_handle := 2, isNext := False,
        isPrevious := False\<rparr>"
    by (simp add: attached_b_eq change_group_def updateListener_def updateState_def
        expandAccordion_def shouldAnimate_def config_get_def raf_def Let_def)
  show ?thesis
    unfolding run_def fold_simps o_apply first
    by (simp add: attached_b_eq change_group_def updateListener_def updateState_def
        collapseAccordion_def getNextSibling_def getPreviousSibling_def Let_def)
qed

lemma attached_open_b_eq:
  "attached_open_b =
     \<lparr>accordionGroupEl = Some \<lparr>gvalue = Single ''b'', animated = True\<rparr>,
      contentEl = Some 0, contentElWrapper = Some 1, currentRaf = None,
      el = Some \<lparr>closest_group = Some \<lparr>gvalue = Single ''b'', animated = True\<rparr>,
                 nextElementSibling = None,
                 previousElementSibling = Some \<lparr>tagName = ''ION-ACCORDION'', sib_value = Some ''a''\<rparr>\<rparr>,
      state = Expanded, isNext = False, isPrevious = False, value_prop = ''b'',
      disabled = False, readonly = False,
      has_window = True, prefers_reduced_motion = False, config_animated = None,
      offsetHeight = (\<lambda>e. 120), max_height = (\<lambda>e. None),
      frames = [], next_handle = 1, waiters = [], now = 0, listening = True,
      toggle_requests = []\<rparr>"
  by (simp add: attached_open_b_def render_def connectedCallback_def panel_b_def Let_def
      updateState_def expandAccordion_def)

text \<open>
  That panel after two notifications within one frame: the open value became \<open>''a''\<close>
  and then \<open>''b''\<close> again.
\<close>

lemma two_notifications_open_eq:
  "run [IonValueChange (Single ''a''), IonValueChange (Single ''b'')] attached_open_b =
     attached_open_b\<lparr>frames := [(1, Collapse_267 0)], next_handle := 2,
        currentRaf := Some 1\<rparr>"
proof -
  have first: "step (IonValueChange (Single ''a'')) attached_open_b =
     attached_open_b\<lparr>accordionGroupEl := Some \<lparr>gvalue = Single ''a'', animated = True\<rparr>,
        el := Some \<lparr>closest_group = Some \<lparr>gvalue = Single ''a'', animated = True\<rparr>,
                 nextElementSibling = None,
                 previousElementSibling = Some \<lparr>tagName = ''ION-ACCORDION'', sib_value = Some ''a''\<rparr>\<rparr>,
        frames := [(1, Collapse_267 0)], next_handle := 2, currentRaf := Some 1,
        isNext := True\<rparr>"
    by (simp add: attached_open_b_eq change_group_def updateListener_def updateState_def
        collapseAccordion_def shouldAnimate_def config_get_def raf_def getNextSibling_def
        getPreviousSibling_def Let_def)
  show ?thesis
    unfolding run_def fold_simps o_apply first
    by (simp add: attached_open_b_eq change_group_def updateListener_def updateState_def
        expandAccordion_def Let_def)
qed


text \<open>The panel with other neighbours, computed.\<close>

lemma before_c_facts:
  "accordionGroupEl before_c = Some \<lparr>gvalue = Multiple [''a'', ''c''], animated = True\<rparr>"
  "value_prop before_c = ''b''" "\<not> isNext before_c" "\<not> isPrevious before_c"
  "el before_c = Some \<lparr>closest_group = Some \<lparr>gvalue = Multiple [''a'', ''c''], animated = True\<rparr>,
                   nextElementSibling = Some \<lparr>tagName = ''ION-ACCORDION'', sib_value = Some ''c''\<rparr>,
                   previousElementSibling = Some \<lparr>tagName = ''DIV'', sib_value = Some ''a''\<rparr>\<rparr>"
  by (simp_all add: before_c_def attached_b_eq)

subsection \<open>Commands that do not animate\<close>

text \<open>
  C10. An expand command issued while \<^verbatim>\<open>contentEl\<close> or \<^verbatim>\<open>contentElWrapper\<close> is still
  undefined, and a collapse command issued while \<^verbatim>\<open>contentEl\<close> is still undefined, only
  set the state to Expanded, respectively Collapsed: nothing else changes, so no frame is
  scheduled and nothing is awaited, whether or not the command is an initial update and
  whether or not animation is enabled.
\<close>

theorem command_before_first_render:
  "(contentEl s = None \<or> contentElWrapper s = None \<longrightarrow>
      expandAccordion initialUpdate s = s\<lparr>state := Expanded\<rparr>) \<and>
   (contentEl s = None \<longrightarrow> collapseAccordion initialUpdate s = s\<lparr>state := Collapsed\<rparr>)"
  by (simp add: expandAccordion_def collapseAccordion_def)

theorem command_before_first_render_witness:
  "contentEl (panel_b None) = None \<and> shouldAnimate (panel_b None) \<and>
   expandAccordion False (panel_b None) = (panel_b None)\<lparr>state := Expanded\<rparr> \<and>
   collapseAccordion False (panel_b None) = (panel_b None)\<lparr>state := Collapsed\<rparr>"
  using command_before_first_render [of "panel_b None" False]
  by (simp add: panel_b_def shouldAnimate_def config_get_def)

text \<open>
  C6. A non-initial expand command issued while the state is Expanded changes nothing:
  the state, the scheduled frames and every other field stay as they were. The same holds
  for a non-initial collapse command issued while the state is Collapsed.
\<close>

theorem command_in_target_state_noop:
  "(state s = Expanded \<longrightarrow> expandAccordion False s = s) \<and>
   (state s = Collapsed \<longrightarrow> collapseAccordion False s = s)"
  by (auto simp: expandAccordion_def collapseAccordion_def)

theorem command_in_target_state_noop_witness:
  "state (attached_b\<lparr>state := Expanded\<rparr>) = Expanded \<and>
   expandAccordion False (attached_b\<lparr>state := Expanded\<rparr>) = attached_b\<lparr>state := Expanded\<rparr> \<and>
   state attached_b = Collapsed \<and>
   collapseAccordion False attached_b = attached_b"
proof -
  have collapsed: "state attached_b = Collapsed"
    by (simp add: attached_b_eq)
  show ?thesis
    using collapsed command_in_target_state_noop [of "attached_b\<lparr>state := Expanded\<rparr>"]
      command_in_target_state_noop [of attached_b]
    by simp
qed

text \<open>
  C5. A command with initial-update semantics only sets the state, to Expanded or to
  Collapsed. The state-update routine called with initial-update semantics, and the attach
  callback that calls it so, leave the state at Expanded when the instance's value is in
  the group's open set and at Collapsed otherwise, and schedule no frame and await
  nothing.
\<close>

theorem initial_update_terminal:
  "expandAccordion True s = s\<lparr>state := Expanded\<rparr> \<and>
   collapseAccordion True s = s\<lparr>state := Collapsed\<rparr> \<and>
   (accordionGroupEl s = Some g \<longrightarrow>
      state (updateState True s) =
        (if value_includes (gvalue g) (value_prop s) then Expanded else Collapsed) \<and>
      frames (updateState True s) = frames s \<and>
      next_handle (updateState True s) = next_handle s \<and>
      waiters (updateState True s) = waiters s) \<and>
   (Option.bind (el s) closest_group = Some g \<longrightarrow>
      state (connectedCallback s) =
        (if value_includes (gvalue g) (value_prop s) then Expanded else Collapsed) \<and>
      frames (connectedCallback s) = frames s \<and>
      next_handle (connectedCallback s) = next_handle s \<and>
      waiters (connectedCallback s) = waiters s)"
  by (auto simp: expandAccordion_def collapseAccordion_def updateState_def
      connectedCallback_def Let_def split: option.splits)

theorem initial_update_terminal_witness:
  "accordionGroupEl attached_b = Some \<lparr>gvalue = Single ''a'', animated = True\<rparr> \<and>
   state (updateState True (attached_b\<lparr>state := Expanding\<rparr>)) = Collapsed \<and>
   frames (updateState True (attached_b\<lparr>state := Expanding\<rparr>)) = [] \<and>
   Option.bind (el (panel_b (Some \<lparr>gvalue = Multiple [''a'', ''b''], animated = True\<rparr>)))
     closest_group = Some \<lparr>gvalue = Multiple [''a'', ''b''], animated = True\<rparr> \<and>
   state (connectedCallback
            (panel_b (Some \<lparr>gvalue = Multiple [''a'', ''b''], animated = True\<rparr>))) = Expanded"
proof -
  have group: "accordionGroupEl attached_b = Some \<lparr>gvalue = Single ''a'', animated = True\<rparr>"
    by (simp add: attached_b_eq)
  have no_frames: "frames attached_b = []"
    by (simp add: attached_b_eq)
  have name: "value_prop attached_b = ''b''"
    by (simp add: attached_b_eq)
  have found: "Option.bind (el (panel_b (Some \<lparr>gvalue = Multiple [''a'', ''b''], animated = True\<rparr>)))
      closest_group = Some \<lparr>gvalue = Multiple [''a'', ''b''], animated = True\<rparr>"
    by (simp add: panel_b_def)
  have name': "value_prop (panel_b (Some \<lparr>gvalue = Multiple [''a'', ''b''], animated = True\<rparr>)) = ''b''"
    by (simp add: panel_b_def)
  show ?thesis
    using group no_frames name found name'
      initial_update_terminal [of "attached_b\<lparr>state := Expanding\<rparr>"
        "\<lparr>gvalue = Single ''a'', animated = True\<rparr>"]
      initial_update_terminal
        [of "panel_b (Some \<lparr>gvalue = Multiple [''a'', ''b''], animated = True\<rparr>)"
          "\<lparr>gvalue = Multiple [''a'', ''b''], animated = True\<rparr>"]
    by simp
qed

subsection \<open>The header click\<close>

text \<open>
  C8. A click on the header while \<^verbatim>\<open>disabled\<close> or \<^verbatim>\<open>readonly\<close> is set changes nothing
  and sends nothing to the group. Otherwise, with a group, exactly one toggle request is
  sent, for the instance's value, asking to expand exactly when the state is Collapsed or
  Collapsing. In every case nothing but the group's list of received requests changes: the
  click never changes the instance's state.
\<close>

theorem toggleExpanded_requests:
  "(disabled s \<or> readonly s \<longrightarrow> toggleExpanded s = s) \<and>
   (\<not> disabled s \<and> \<not> readonly s \<and> accordionGroupEl s = Some g \<longrightarrow>
      toggleExpanded s =
        s\<lparr>toggle_requests := toggle_requests s @
             [(value_prop s, state s = Collapsed \<or> state s = Collapsing)]\<rparr>) \<and>
   (toggleExpanded s)\<lparr>toggle_requests := toggle_requests s\<rparr> = s"
  by (auto simp: toggleExpanded_def Let_def split: option.splits)

theorem toggleExpanded_requests_witness:
  "disabled (attached_b\<lparr>disabled := True\<rparr>) \<and>
   toggle_requests (toggleExpanded (attached_b\<lparr>disabled := True\<rparr>)) = [] \<and>
   \<not> disabled attached_b \<and> \<not> readonly attached_b \<and>
   accordionGroupEl attached_b = Some \<lparr>gvalue = Single ''a'', animated = True\<rparr> \<and>
   toggle_requests (toggleExpanded attached_b) = [(''b'', True)] \<and>
   state (toggleExpanded attached_b) = Collapsed"
proof -
  have facts: "\<not> disabled attached_b" "\<not> readonly attached_b"
    "accordionGroupEl attached_b = Some \<lparr>gvalue = Single ''a'', animated = True\<rparr>"
    "toggle_requests attached_b = []" "value_prop attached_b = ''b''"
    "state attached_b = Collapsed"
    by (simp_all add: attached_b_eq)
  show ?thesis
    using facts toggleExpanded_requests [of "attached_b\<lparr>disabled := True\<rparr>"]
      toggleExpanded_requests [of attached_b "\<lparr>gvalue = Single ''a'', animated = True\<rparr>"]
    by simp
qed

subsection \<open>Animation disabled\<close>

text \<open>
  C4. \<^verbatim>\<open>shouldAnimate\<close> is computed from the present values of its four inputs: it is
  false exactly when there is no window, or the platform prefers reduced motion, or the
  configuration's animated entry is false, or the group's \<^verbatim>\<open>animated\<close> is false. When
  one of the four holds, an expand command leaves the state at Expanded and a collapse
  command at Collapsed when the call returns, and the call schedules no frame and awaits
  nothing. The outcome of an earlier call is not kept: whenever none of the four holds, a
  non-initial command on a rendered instance that is not yet in the target state leaves
  the state as it is and schedules a frame.
\<close>

theorem animation_disabled_direct:
  "(shouldAnimate s \<longleftrightarrow>
      has_window s \<and> \<not> prefers_reduced_motion s \<and> config_animated s \<noteq> Some False \<and>
      (case accordionGroupEl s of None \<Rightarrow> True | Some g \<Rightarrow> animated g)) \<and>
   (\<not> has_window s \<or> prefers_reduced_motion s \<or> config_animated s = Some False \<or>
    (\<exists>g. accordionGroupEl s = Some g \<and> \<not> animated g) \<longrightarrow>
      state (expandAccordion initialUpdate s) = Expanded \<and>
      next_handle (expandAccordion initialUpdate s) = next_handle s \<and>
      set (frames (expandAccordion initialUpdate s)) \<subseteq> set (frames s) \<and>
      waiters (expandAccordion initialUpdate s) = waiters s \<and>
      state (collapseAccordion initialUpdate s) = Collapsed \<and>
      next_handle (collapseAccordion initialUpdate s) = next_handle s \<and>
      set (frames (collapseAccordion initialUpdate s)) \<subseteq> set (frames s) \<and>
      waiters (collapseAccordion initialUpdate s) = waiters s) \<and>
   (shouldAnimate s \<and> contentEl s = Some c \<and> contentElWrapper s = Some w \<and>
    state s \<noteq> Expanded \<longrightarrow>
      state (expandAccordion False s) = state s \<and>
      (next_handle s, Expand_232 c w) \<in> set (frames (expandAccordion False s))) \<and>
   (shouldAnimate s \<and> contentEl s = Some c \<and> state s \<noteq> Collapsed \<longrightarrow>
      state (collapseAccordion False s) = state s \<and>
      (next_handle s, Collapse_267 c) \<in> set (frames (collapseAccordion False s)))"
proof -
  have off: "\<not> shouldAnimate s"
    if "\<not> has_window s \<or> prefers_reduced_motion s \<or> config_animated s = Some False \<or>
        (\<exists>g. accordionGroupEl s = Some g \<and> \<not> animated g)"
    using that by (auto simp: shouldAnimate_iff)
  show ?thesis
    using shouldAnimate_iff [of s] off expand_direct [of s initialUpdate]
      collapse_direct [of s initialUpdate] expand_animated [of s c w]
      collapse_animated [of s c]
    by blast
qed

theorem animation_disabled_direct_witness:
  "prefers_reduced_motion (attached_b\<lparr>prefers_reduced_motion := True\<rparr>) \<and>
   state (expandAccordion False (attached_b\<lparr>prefers_reduced_motion := True\<rparr>)) = Expanded \<and>
   frames (expandAccordion False (attached_b\<lparr>prefers_reduced_motion := True\<rparr>)) = [] \<and>
   shouldAnimate ((expandAccordion False (attached_b\<lparr>prefers_reduced_motion := True\<rparr>))
                    \<lparr>prefers_reduced_motion := False\<rparr>) \<and>
   state (collapseAccordion False
            ((expandAccordion False (attached_b\<lparr>prefers_reduced_motion := True\<rparr>))
               \<lparr>prefers_reduced_motion := False\<rparr>)) = Expanded \<and>
   (1, Collapse_267 0) \<in> set (frames (collapseAccordion False
            ((expandAccordion False (attached_b\<lparr>prefers_reduced_motion := True\<rparr>))
               \<lparr>prefers_reduced_motion := False\<rparr>))) \<and>
   shouldAnimate attached_b \<and>
   state (expandAccordion False attached_b) = Collapsed \<and>
   (1, Expand_232 0 1) \<in> set (frames (expandAccordion False attached_b))"
proof -
  let ?A = "attached_b\<lparr>prefers_reduced_motion := True\<rparr>"
  have A: "expandAccordion False ?A =
      attached_b\<lparr>prefers_reduced_motion := True, state := Expanded\<rparr>"
    by (simp add: attached_b_eq expandAccordion_def shouldAnimate_def)
  let ?B = "(expandAccordion False ?A)\<lparr>prefers_reduced_motion := False\<rparr>"
  have B: "shouldAnimate ?B" "contentEl ?B = Some 0" "state ?B = Expanded"
    "next_handle ?B = 1" "frames ?A = []"
    unfolding A by (simp_all add: attached_b_eq shouldAnimate_def config_get_def)
  have C: "shouldAnimate attached_b" "contentEl attached_b = Some 0"
    "contentElWrapper attached_b = Some 1" "state attached_b = Collapsed"
    "next_handle attached_b = 1"
    by (simp_all add: attached_b_eq shouldAnimate_def config_get_def)
  show ?thesis
    using B C animation_disabled_direct [of ?A False]
      animation_disabled_direct [of ?B _ 0]
      animation_disabled_direct [of attached_b _ 0 1]
    by simp
qed

subsection \<open>The neighbour flags\<close>

text \<open>
  C7, as amended. A run of the state-update routine on an instance with a group: when the
  instance's value is in the open set, \<^verbatim>\<open>isNext\<close> and \<^verbatim>\<open>isPrevious\<close> are both false
  afterwards, whatever the siblings are. When it is not, \<^verbatim>\<open>isNext\<close> becomes whether the
  value of the previous element sibling is in the open set, provided that sibling exists,
  its tag is \<^verbatim>\<open>ION-ACCORDION\<close> and its value is defined, and otherwise keeps the value it
  had; \<^verbatim>\<open>isPrevious\<close> is set in the same way from the next element sibling.
\<close>

theorem updateState_neighbour_flags:
  assumes "accordionGroupEl s = Some g"
  shows "(value_includes (gvalue g) (value_prop s) \<longrightarrow>
            \<not> isNext (updateState initialUpdate s) \<and>
            \<not> isPrevious (updateState initialUpdate s)) \<and>
         (\<not> value_includes (gvalue g) (value_prop s) \<longrightarrow>
            isNext (updateState initialUpdate s) =
              (case el s of
                 None \<Rightarrow> isNext s
               | Some e \<Rightarrow>
                   (case previousElementSibling e of
                      None \<Rightarrow> isNext s
                    | Some p \<Rightarrow>
                        if tagName p = ''ION-ACCORDION''
                        then (case sib_value p of
                                None \<Rightarrow> isNext s
                              | Some pv \<Rightarrow> value_includes (gvalue g) pv)
                        else isNext s)) \<and>
            isPrevious (updateState initialUpdate s) =
              (case el s of
                 None \<Rightarrow> isPrevious s
               | Some e \<Rightarrow>
                   (case nextElementSibling e of
                      None \<Rightarrow> isPrevious s
                    | Some n \<Rightarrow>
                        if tagName n = ''ION-ACCORDION''
                        then (case sib_value n of
                                None \<Rightarrow> isPrevious s
                              | Some nv \<Rightarrow> value_includes (gvalue g) nv)
                        else isPrevious s)))"
proof -
  have keep: "isNext (collapseAccordion initialUpdate s) = isNext s"
    "isPrevious (collapseAccordion initialUpdate s) = isPrevious s"
    "el (collapseAccordion initialUpdate s) = el s"
    "isNext (expandAccordion initialUpdate s) = isNext s"
    by (auto simp: collapseAccordion_def expandAccordion_def cancelAnimationFrame_def raf_def
        Let_def split: option.splits)
  show ?thesis
    using assms keep
    by (auto simp: updateState_def Let_def getNextSibling_def getPreviousSibling_def
        split: option.splits)
qed

theorem updateState_neighbour_flags_witness:
  "accordionGroupEl before_c = Some \<lparr>gvalue = Multiple [''a'', ''c''], animated = True\<rparr> \<and>
   \<not> value_includes (Multiple [''a'', ''c'']) (value_prop before_c) \<and>
   \<not> isPrevious before_c \<and> isPrevious (updateState False before_c) \<and>
   \<not> isNext (updateState False before_c) \<and>
   accordionGroupEl attached_b = Some \<lparr>gvalue = Single ''a'', animated = True\<rparr> \<and>
   \<not> value_includes (Single ''a'') (value_prop attached_b) \<and>
   isNext (updateState False (attached_b\<lparr>isNext := False\<rparr>)) \<and>
   \<not> isPrevious (updateState False (attached_b\<lparr>isNext := False\<rparr>)) \<and>
   accordionGroupEl attached_open_b = Some \<lparr>gvalue = Single ''b'', animated = True\<rparr> \<and>
   value_includes (Single ''b'') (value_prop attached_open_b) \<and>
   \<not> isNext (updateState False (attached_open_b\<lparr>isNext := True, isPrevious := True\<rparr>)) \<and>
   \<not> isPrevious (updateState False (attached_open_b\<lparr>isNext := True, isPrevious := True\<rparr>))"
proof -
  have a: "accordionGroupEl (attached_b\<lparr>isNext := False\<rparr>) =
        Some \<lparr>gvalue = Single ''a'', animated = True\<rparr>"
    "value_prop attached_b = ''b''" "\<not> isPrevious attached_b"
    "el (attached_b\<lparr>isNext := False\<rparr>) =
       Some \<lparr>closest_group = Some \<lparr>gvalue = Single ''a'', animated = True\<rparr>,
             nextElementSibling = None,
             previousElementSibling = Some \<lparr>tagName = ''ION-ACCORDION'', sib_value = Some ''a''\<rparr>\<rparr>"
    by (simp_all add: attached_b_eq)
  have b: "accordionGroupEl (attached_open_b\<lparr>isNext := True, isPrevious := True\<rparr>) =
        Some \<lparr>gvalue = Single ''b'', animated = True\<rparr>"
    "value_prop attached_open_b = ''b''"
    by (simp_all add: attached_open_b_eq)
  show ?thesis
    using before_c_facts a b
      updateState_neighbour_flags [of before_c
        "\<lparr>gvalue = Multiple [''a'', ''c''], animated = True\<rparr>" False]
      updateState_neighbour_flags [of "attached_b\<lparr>isNext := False\<rparr>"
        "\<lparr>gvalue = Single ''a'', animated = True\<rparr>" False]
      updateState_neighbour_flags
        [of "attached_open_b\<lparr>isNext := True, isPrevious := True\<rparr>"
          "\<lparr>gvalue = Single ''b'', animated = True\<rparr>" False]
    by simp
qed

text \<open>
  C7, as stated, fails where the sibling is missing. The attached panel was given
  \<^verbatim>\<open>isNext\<close> at attach, when the accordion before it was open; that accordion has
  left the document since and the panel has no element sibling. The group's value becomes
  undefined and the notification runs the state-update routine: the panel's value is not
  in the open set, there is no previous sibling whose value could be, and \<^verbatim>\<open>isNext\<close>
  is still true.
\<close>

theorem stale_isNext_without_sibling:
  "isNext alone_b \<and> listening alone_b \<and>
   accordionGroupEl (step (IonValueChange NoValue) alone_b) =
      Some \<lparr>gvalue = NoValue, animated = True\<rparr> \<and>
   \<not> value_includes NoValue (value_prop (step (IonValueChange NoValue) alone_b)) \<and>
   Option.bind (el (step (IonValueChange NoValue) alone_b)) previousElementSibling = None \<and>
   Option.bind (el (step (IonValueChange NoValue) alone_b)) nextElementSibling = None \<and>
   isNext (step (IonValueChange NoValue) alone_b)"
  by (simp add: alone_b_def attached_b_eq change_group_def updateListener_def updateState_def
      collapseAccordion_def getNextSibling_def getPreviousSibling_def Let_def)

subsection \<open>No group\<close>

text \<open>
  C9. When the attach callback of a newly created instance finds no enclosing group,
  then after any sequence of events the instance is not subscribed to the group's change
  notification and refers to no group, a call of the state-update routine changes
  nothing, the state is Collapsed, no callback of an expand or collapse command is
  scheduled and nothing is awaited. The only callbacks that can be scheduled are those of
  \<^verbatim>\<open>componentDidLoad\<close>: when the component has not loaded among the events, no frame
  is scheduled at all.
\<close>

theorem no_group_stays_collapsed:
  assumes "created s" and "Option.bind (el s) closest_group = None"
  shows "\<not> listening (run es (connectedCallback s)) \<and>
         accordionGroupEl (run es (connectedCallback s)) = None \<and>
         updateState initialUpdate (run es (connectedCallback s)) =
           run es (connectedCallback s) \<and>
         state (run es (connectedCallback s)) = Collapsed \<and>
         list_all (\<lambda>p. snd p = Load_113) (frames (run es (connectedCallback s))) \<and>
         (ComponentDidLoad \<notin> set es \<longrightarrow> frames (run es (connectedCallback s)) = []) \<and>
         waiters (run es (connectedCallback s)) = []"
proof -
  from assms have start: "groupless (connectedCallback s)" "frames (connectedCallback s) = []"
    by (simp_all add: created_def groupless_def connectedCallback_def)
  from start(1) have "groupless (run es (connectedCallback s))"
    by (rule run_groupless)
  moreover have "ComponentDidLoad \<notin> set es \<longrightarrow> frames (run es (connectedCallback s)) = []"
    using start by (simp add: run_no_load)
  ultimately show ?thesis
    by (simp add: groupless_def updateState_no_group)
qed

theorem no_group_stays_collapsed_witness:
  "created (panel_b None) \<and> Option.bind (el (panel_b None)) closest_group = None \<and>
   state (run [Render 0 1, ComponentDidLoad, IonValueChange (Single ''b''), SetValue ''c'',
               Click, AnimationFrame, TransitionEnd 0, Advance 5000]
            (connectedCallback (panel_b None))) = Collapsed \<and>
   \<not> listening (run [Render 0 1, ComponentDidLoad, IonValueChange (Single ''b''),
               SetValue ''c'', Click, AnimationFrame, TransitionEnd 0, Advance 5000]
            (connectedCallback (panel_b None))) \<and>
   ComponentDidLoad \<notin> set [Render 0 1, IonValueChange (Single ''b''), Click] \<and>
   frames (run [Render 0 1, IonValueChange (Single ''b''), Click]
             (connectedCallback (panel_b None))) = []"
proof -
  have pre: "created (panel_b None)" "Option.bind (el (panel_b None)) closest_group = None"
    by (simp_all add: created_def panel_b_def)
  show ?thesis
    using pre no_group_stays_collapsed [OF pre,
        where es = "[Render 0 1, ComponentDidLoad, IonValueChange (Single ''b''),
               SetValue ''c'', Click, AnimationFrame, TransitionEnd 0, Advance 5000]"]
      no_group_stays_collapsed [OF pre,
        where es = "[Render 0 1, IonValueChange (Single ''b''), Click]"]
    by simp
qed

subsection \<open>The animated collapse\<close>




subsection \<open>Two commands within one frame\<close>

text \<open>
  C2. What the code does when a collapse command follows an expand command before any
  frame has run. On the attached panel (Collapsed, nothing scheduled) the expand command
  schedules its outer callback under handle 1 and records no handle; the collapse command
  then changes nothing, so the callback stays scheduled; the next frame runs it (the state
  becomes Expanding) and the frame after that runs the nested callback, which sets the
  max-height and awaits the transition end. On the panel in the middle of an expansion the
  collapse command cancels the recorded handle 2, which has already run, and schedules its
  own callback beside the expand command's; two frames later the continuations of the
  earlier expansion, of the expand command and of the collapse command are all awaiting a
  transition end of the same element.
\<close>

theorem collapse_after_expand_runs_both:
  "(let s1 = expandAccordion False attached_b;
        s2 = collapseAccordion False s1;
        s3 = animation_frame s2;
        s4 = animation_frame s3
    in state attached_b = Collapsed \<and> frames attached_b = [] \<and>
       frames s1 = [(1, Expand_232 0 1)] \<and> currentRaf s1 = None \<and>
       s2 = s1 \<and>
       state s3 = Expanding \<and> frames s3 = [(2, Expand_235 0 1)] \<and>
       waiters s4 = [(0, 2000, Expand_242 0)] \<and> max_height s4 0 = Some 120) \<and>
   (let s0 = run [IonValueChange (Single ''b''), AnimationFrame, AnimationFrame] attached_b;
        s1 = expandAccordion False s0;
        s2 = collapseAccordion False s1;
        s3 = animation_frame s2;
        s4 = animation_frame s3
    in state s0 = Expanding \<and> frames s0 = [] \<and> currentRaf s0 = Some 2 \<and>
       frames s1 = [(3, Expand_232 0 1)] \<and> currentRaf s1 = Some 2 \<and>
       frames s2 = [(3, Expand_232 0 1), (4, Collapse_267 0)] \<and> currentRaf s2 = Some 4 \<and>
       frames s3 = [(5, Expand_235 0 1), (6, Collapse_271 0)] \<and>
       waiters s4 =
         [(0, 2000, Expand_242 0), (0, 2000, Expand_242 0), (0, 2000, Collapse_278 0)])"
  unfolding mid_expansion_eq
  by (simp add: attached_b_eq expandAccordion_def collapseAccordion_def shouldAnimate_def
      config_get_def raf_def animation_frame_def transitionEndAsync_def
      cancelAnimationFrame_def)

subsection \<open>Two notifications within one frame\<close>

text \<open>
  C1. What the code does when the group's open value changes twice before a frame runs,
  each change with its notification, and two frames and a transition-end signal follow.
  The attached panel \<open>''b''\<close> is Collapsed and the open value is \<open>''a''\<close>; the open
  value becomes \<open>''b''\<close> and then \<open>''a''\<close> again. In the end nothing is scheduled or
  awaited, the open value \<open>''a''\<close> does not include the panel's value, and the panel's
  state is Expanded. In the other direction the panel is Expanded and the open value is
  \<open>''b''\<close>; it becomes \<open>''a''\<close> and then \<open>''b''\<close> again. In the end nothing is
  scheduled or awaited, the open value is the panel's value, and the panel's state is
  Collapsed.
\<close>

theorem two_notifications_within_a_frame:
  "(let s = run [IonValueChange (Single ''b''), IonValueChange (Single ''a''),
                 AnimationFrame, AnimationFrame, TransitionEnd 0] attached_b
    in state s = Expanded \<and> frames s = [] \<and> waiters s = [] \<and>
       map_option gvalue (accordionGroupEl s) = Some (Single ''a'') \<and>
       value_prop s = ''b'' \<and> \<not> value_includes (Single ''a'') (value_prop s)) \<and>
   (let s = run [IonValueChange (Single ''a''), IonValueChange (Single ''b''),
                 AnimationFrame, AnimationFrame, TransitionEnd 0] attached_open_b
    in state s = Collapsed \<and> frames s = [] \<and> waiters s = [] \<and>
       map_option gvalue (accordionGroupEl s) = Some (Single ''b'') \<and>
       value_prop s = ''b'' \<and> value_includes (Single ''b'') (value_prop s))"
proof -
  have close_run:
    "run [IonValueChange (Single ''b''), IonValueChange (Single ''a''),
          AnimationFrame, AnimationFrame, TransitionEnd 0] attached_b =
     run [AnimationFrame, AnimationFrame, TransitionEnd 0]
       (run [IonValueChange (Single ''b''), IonValueChange (Single ''a'')] attached_b)"
    by (simp add: run_def)
  have closed:
    "let s = run [IonValueChange (Single ''b''), IonValueChange (Single ''a''),
                  AnimationFrame, AnimationFrame, TransitionEnd 0] attached_b
     in state s = Expanded \<and> frames s = [] \<and> waiters s = [] \<and>
        map_option gvalue (accordionGroupEl s) = Some (Single ''a'') \<and>
        value_prop s = ''b'' \<and> \<not> value_includes (Single ''a'') (value_prop s)"
    unfolding close_run two_notifications_eq
    by (simp add: run_def attached_b_eq animation_frame_def raf_def transitionEndAsync_def
        transition_end_def resolve_def)
  have reopen_run:
    "run [IonValueChange (Single ''a''), IonValueChange (Single ''b''),
          AnimationFrame, AnimationFrame, TransitionEnd 0] attached_open_b =
     run [AnimationFrame, AnimationFrame, TransitionEnd 0]
       (run [IonValueChange (Single ''a''), IonValueChange (Single ''b'')] attached_open_b)"
    by (simp add: run_def)
  have reopened:
    "let s = run [IonValueChange (Single ''a''), IonValueChange (Single ''b''),
                  AnimationFrame, AnimationFrame, TransitionEnd 0] attached_open_b
     in state s = Collapsed \<and> frames s = [] \<and> waiters s = [] \<and>
        map_option gvalue (accordionGroupEl s) = Some (Single ''b'') \<and>
        value_prop s = ''b'' \<and> value_includes (Single ''b'') (value_prop s)"
    unfolding reopen_run two_notifications_open_eq
    by (simp add: run_def attached_open_b_eq animation_frame_def raf_def
        transitionEndAsync_def transition_end_def resolve_def)
  from closed reopened show ?thesis
    by (rule conjI)
qed

end
